theory Spec2Isabelle
  imports Main
begin

section \<open>The tracing exceptions of wsgate (btexception.hpp)\<close>

text \<open>
  The header declares three backtrace generators (\<open>dummy_tracer\<close>, \<open>bfd_tracer\<close>,
  \<open>dwarf_tracer\<close>), the class \<open>tracing::exception\<close> that holds one of them, and the
  two families \<open>runtime_error\<close> and \<open>logic_error\<close> with their named leaves.
  Only \<open>dummy_tracer\<close>, \<open>runtime_error\<close>, \<open>logic_error\<close> and \<open>invalid_argument\<close>
  are defined in the header. Every other member function is declared there and defined
  in a translation unit that is not part of the sources.
\<close>

subsection \<open>C strings\<close>

text \<open>
  \<open>what()\<close> and \<open>where()\<close> return \<open>const char*\<close>. What a caller reads through such
  a pointer is the character sequence up to the first NUL, which is what
  \<open>std::string::c_str()\<close> hands out for a string with an embedded NUL as well.
\<close>

definition NUL :: char where
  "NUL = CHR 0x00"

definition c_str :: "string \<Rightarrow> string" where
  "c_str s = takeWhile (\<lambda>c. c \<noteq> NUL) s"

subsection \<open>The tracer classes\<close>

text \<open>
  \<open>class dummy_tracer\<close> (lines 17 to 26) has no data member: an object carries nothing.
  Its constructor takes an int and ignores it, its \<open>trace\<close> takes an int and ignores it.
\<close>

datatype dummy_tracer = Dummy_object

definition dummy_tracer_ctor :: "int \<Rightarrow> dummy_tracer" where
  "dummy_tracer_ctor n = Dummy_object"

definition dummy_tracer_trace :: "dummy_tracer \<Rightarrow> int \<Rightarrow> string" where
  "dummy_tracer_trace this skip = ''Tracing disabled''"

text \<open>
  \<open>class bfd_tracer\<close> (lines 35 to 74) and \<open>class dwarf_tracer\<close> (lines 82 to 116) declare
  the same three private data members: \<open>int maxframes\<close>, \<open>int frames\<close> and
  \<open>void **tbuf\<close>, a pointer to the frame array.
\<close>

record rich_tracer =
  maxframes :: int
  frames :: int
  tbuf :: nat

type_synonym bfd_tracer = rich_tracer

type_synonym dwarf_tracer = rich_tracer

text \<open>
  The member functions of the rich tracer classes are declared only. A value of
  \<open>'w rich_impl\<close> stands for their absent definitions: \<open>'w\<close> is the state of the
  process they read and change (call stack, free store, statics), and \<open>None\<close> is a call
  that does not return normally. Statements that hold for every \<open>R :: 'w rich_impl\<close>
  do not depend on what those definitions do.
\<close>

record 'w rich_impl =
  ctor :: "int \<Rightarrow> 'w \<Rightarrow> (rich_tracer \<times> 'w) option"
  copy_ctor :: "rich_tracer \<Rightarrow> 'w \<Rightarrow> (rich_tracer \<times> 'w) option"
  trace :: "rich_tracer \<Rightarrow> int \<Rightarrow> 'w \<Rightarrow> (string \<times> 'w) option"
  dtor :: "rich_tracer \<Rightarrow> 'w \<Rightarrow> 'w option"

text \<open>
  Which class the member \<open>tracer\<close> of \<open>exception\<close> has is fixed by the preprocessor
  (lines 141 to 150): \<open>bfd_tracer\<close> if \<open>USE_BFD\<close> is defined, else \<open>dwarf_tracer\<close> if
  \<open>USE_DWARF\<close> is defined, else \<open>dummy_tracer\<close>.
\<close>

record build =
  USE_BFD :: bool
  USE_DWARF :: bool

datatype backend = Bfd_backend | Dwarf_backend | Dummy_backend

definition active_backend :: "build \<Rightarrow> backend" where
  "active_backend b =
     (if USE_BFD b then Bfd_backend
      else if USE_DWARF b then Dwarf_backend
      else Dummy_backend)"

datatype tracer = Bfd bfd_tracer | Dwarf dwarf_tracer | No_op dummy_tracer

text \<open>Constructing the member from an int, with the class the build selects.\<close>

definition tracer_ctor ::
    "'w rich_impl \<Rightarrow> build \<Rightarrow> int \<Rightarrow> 'w \<Rightarrow> (tracer \<times> 'w) option" where
  "tracer_ctor R b n w =
     (case active_backend b of
        Bfd_backend \<Rightarrow> map_option (apfst Bfd) (ctor R n w)
      | Dwarf_backend \<Rightarrow> map_option (apfst Dwarf) (ctor R n w)
      | Dummy_backend \<Rightarrow> Some (No_op (dummy_tracer_ctor n), w))"

fun tracer_trace ::
    "'w rich_impl \<Rightarrow> tracer \<Rightarrow> int \<Rightarrow> 'w \<Rightarrow> (string \<times> 'w) option" where
  "tracer_trace R (Bfd t) skip w = trace R t skip w"
| "tracer_trace R (Dwarf t) skip w = trace R t skip w"
| "tracer_trace R (No_op d) skip w = Some (dummy_tracer_trace d skip, w)"

text \<open>
  Copy construction: the declared copy constructor of a rich tracer, the implicit
  (memberwise, here empty) one of \<open>dummy_tracer\<close>.
\<close>

fun tracer_copy :: "'w rich_impl \<Rightarrow> tracer \<Rightarrow> 'w \<Rightarrow> (tracer \<times> 'w) option" where
  "tracer_copy R (Bfd t) w = map_option (apfst Bfd) (copy_ctor R t w)"
| "tracer_copy R (Dwarf t) w = map_option (apfst Dwarf) (copy_ctor R t w)"
| "tracer_copy R (No_op d) w = Some (No_op d, w)"

fun tracer_dtor :: "'w rich_impl \<Rightarrow> tracer \<Rightarrow> 'w \<Rightarrow> 'w option" where
  "tracer_dtor R (Bfd t) w = dtor R t w"
| "tracer_dtor R (Dwarf t) w = dtor R t w"
| "tracer_dtor R (No_op d) w = Some w"

subsection \<open>class exception\<close>

text \<open>\<open>class exception\<close> (lines 124 to 151) has one data member, \<open>tracer\<close>.\<close>

record exception =
  tracer :: tracer

text \<open>
  Modelled from the spec: the body of \<open>exception::exception()\<close>, which is declared on
  line 130 and defined outside the header. Section 4.5: "Construction: invokes the active
  backend's Frame Capturer immediately, with a fixed default max-frame count". The
  header leaves no other way: \<open>tracer\<close> is the only data member and no tracer class has a
  default constructor, so the member is initialised from an int. \<open>n\<close> is that int, a
  constant of the absent definition.
\<close>

definition exception_ctor ::
    "'w rich_impl \<Rightarrow> build \<Rightarrow> int \<Rightarrow> 'w \<Rightarrow> (exception \<times> 'w) option" where
  "exception_ctor R b n w =
     map_option (\<lambda>(t, w'). (\<lparr>tracer = t\<rparr>, w')) (tracer_ctor R b n w)"

text \<open>
  Modelled from the spec: the body of \<open>exception::where()\<close>, which is declared on line 138
  (\<open>const\<close>, \<open>throw()\<close>) and defined outside the header. Section 4.5: "Query (where()):
  invokes the active backend's Symbol Resolver with a caller-supplied or default skip
  count and returns the resulting TraceText as a stable, null-terminated string".
  \<open>skip\<close> is the skip count the absent definition passes.
\<close>

definition exception_where ::
    "'w rich_impl \<Rightarrow> int \<Rightarrow> 'a exception_scheme \<Rightarrow> 'w \<Rightarrow> (string \<times> 'w) option" where
  "exception_where R skip this w =
     map_option (apfst c_str) (tracer_trace R (tracer this) skip w)"

subsection \<open>The two families\<close>

text \<open>
  \<open>class runtime_error : public exception\<close> (lines 158 to 169) adds \<open>std::string msg\<close>;
  \<open>class logic_error : public exception\<close> (lines 176 to 187) adds \<open>std::string _M_msg\<close>.
\<close>

record runtime_error = exception +
  msg :: string

record logic_error = exception +
  M_msg :: string

text \<open>
  \<open>runtime_error(const std::string& __arg) : exception(), msg(__arg) { }\<close> names the base
  constructor. \<open>logic_error(const std::string& __arg) : _M_msg(__arg) { }\<close> does not name
  it: the base class subobject is then default-initialised, which runs \<open>exception()\<close>
  all the same, before the member \<open>_M_msg\<close> is initialised. In both definitions \<open>E\<close>
  is \<open>exception::exception()\<close>, the call that builds the base class subobject.
\<close>

definition runtime_error_ctor ::
    "('w \<Rightarrow> (exception \<times> 'w) option) \<Rightarrow> string \<Rightarrow> 'w \<Rightarrow> (runtime_error \<times> 'w) option" where
  "runtime_error_ctor E arg w =
     map_option (\<lambda>(e, w'). (\<lparr>tracer = tracer e, msg = arg\<rparr>, w')) (E w)"

definition logic_error_ctor ::
    "('w \<Rightarrow> (exception \<times> 'w) option) \<Rightarrow> string \<Rightarrow> 'w \<Rightarrow> (logic_error \<times> 'w) option" where
  "logic_error_ctor E arg w =
     map_option (\<lambda>(e, w'). (\<lparr>tracer = tracer e, M_msg = arg\<rparr>, w')) (E w)"

text \<open>\<open>what()\<close> of the two classes: \<open>return msg.c_str();\<close> and \<open>return _M_msg.c_str();\<close>.\<close>

definition runtime_error_what :: "runtime_error \<Rightarrow> string" where
  "runtime_error_what this = c_str (msg this)"

definition logic_error_what :: "logic_error \<Rightarrow> string" where
  "logic_error_what this = c_str (M_msg this)"

text \<open>
  The concrete classes of the family. A thrown object is one of them: its dynamic class
  and the subobject of the class that declares its data.
\<close>

datatype kind =
    Runtime_error | Range_error | Overflow_error | Underflow_error
  | Logic_error | Domain_error | Invalid_argument | Length_error | Out_of_range

datatype thrown = Runtime_object kind runtime_error | Logic_object kind logic_error

fun kind_of :: "thrown \<Rightarrow> kind" where
  "kind_of (Runtime_object k r) = k"
| "kind_of (Logic_object k l) = k"

fun tracer_of :: "thrown \<Rightarrow> tracer" where
  "tracer_of (Runtime_object k r) = tracer r"
| "tracer_of (Logic_object k l) = tracer l"

text \<open>
  \<open>invalid_argument(const std::string& __arg) : logic_error(__arg) { }\<close> (line 202).
\<close>

definition invalid_argument_ctor ::
    "('w \<Rightarrow> (exception \<times> 'w) option) \<Rightarrow> string \<Rightarrow> 'w \<Rightarrow> (logic_error \<times> 'w) option" where
  "invalid_argument_ctor E arg w = logic_error_ctor E arg w"

text \<open>
  Modelled from the spec: the constructors of \<open>domain_error\<close>, \<open>length_error\<close>,
  \<open>out_of_range\<close>, \<open>range_error\<close>, \<open>overflow_error\<close> and \<open>underflow_error\<close>, which are
  declared on lines 195, 210, 218, 226, 233 and 240 and defined outside the header.
  Section 4.6: "Each leaf is purely a named tag plus a message string supplied at
  construction; no leaf adds behavior beyond its category base". Their base classes
  have no default constructor, so each has to pass a string to \<open>logic_error\<close> or
  \<open>runtime_error\<close>; the string passed on is the argument.
\<close>

definition domain_error_ctor ::
    "('w \<Rightarrow> (exception \<times> 'w) option) \<Rightarrow> string \<Rightarrow> 'w \<Rightarrow> (logic_error \<times> 'w) option" where
  "domain_error_ctor E arg w = logic_error_ctor E arg w"

definition length_error_ctor ::
    "('w \<Rightarrow> (exception \<times> 'w) option) \<Rightarrow> string \<Rightarrow> 'w \<Rightarrow> (logic_error \<times> 'w) option" where
  "length_error_ctor E arg w = logic_error_ctor E arg w"

definition out_of_range_ctor ::
    "('w \<Rightarrow> (exception \<times> 'w) option) \<Rightarrow> string \<Rightarrow> 'w \<Rightarrow> (logic_error \<times> 'w) option" where
  "out_of_range_ctor E arg w = logic_error_ctor E arg w"

definition range_error_ctor ::
    "('w \<Rightarrow> (exception \<times> 'w) option) \<Rightarrow> string \<Rightarrow> 'w \<Rightarrow> (runtime_error \<times> 'w) option" where
  "range_error_ctor E arg w = runtime_error_ctor E arg w"

definition overflow_error_ctor ::
    "('w \<Rightarrow> (exception \<times> 'w) option) \<Rightarrow> string \<Rightarrow> 'w \<Rightarrow> (runtime_error \<times> 'w) option" where
  "overflow_error_ctor E arg w = runtime_error_ctor E arg w"

definition underflow_error_ctor ::
    "('w \<Rightarrow> (exception \<times> 'w) option) \<Rightarrow> string \<Rightarrow> 'w \<Rightarrow> (runtime_error \<times> 'w) option" where
  "underflow_error_ctor E arg w = runtime_error_ctor E arg w"

text \<open>
  Constructing an object of a given class of the family: the constructor of that class,
  and the dynamic class of the object it builds.
\<close>

fun construct ::
    "('w \<Rightarrow> (exception \<times> 'w) option) \<Rightarrow> kind \<Rightarrow> string \<Rightarrow> 'w \<Rightarrow> (thrown \<times> 'w) option" where
  "construct E Runtime_error arg w =
     map_option (apfst (Runtime_object Runtime_error)) (runtime_error_ctor E arg w)"
| "construct E Range_error arg w =
     map_option (apfst (Runtime_object Range_error)) (range_error_ctor E arg w)"
| "construct E Overflow_error arg w =
     map_option (apfst (Runtime_object Overflow_error)) (overflow_error_ctor E arg w)"
| "construct E Underflow_error arg w =
     map_option (apfst (Runtime_object Underflow_error)) (underflow_error_ctor E arg w)"
| "construct E Logic_error arg w =
     map_option (apfst (Logic_object Logic_error)) (logic_error_ctor E arg w)"
| "construct E Domain_error arg w =
     map_option (apfst (Logic_object Domain_error)) (domain_error_ctor E arg w)"
| "construct E Invalid_argument arg w =
     map_option (apfst (Logic_object Invalid_argument)) (invalid_argument_ctor E arg w)"
| "construct E Length_error arg w =
     map_option (apfst (Logic_object Length_error)) (length_error_ctor E arg w)"
| "construct E Out_of_range arg w =
     map_option (apfst (Logic_object Out_of_range)) (out_of_range_ctor E arg w)"

text \<open>
  The virtual functions. \<open>what()\<close> is overridden in \<open>runtime_error\<close> and \<open>logic_error\<close>
  and in no leaf; \<open>where()\<close> is declared in \<open>exception\<close> and overridden nowhere.
\<close>

fun what :: "thrown \<Rightarrow> string" where
  "what (Runtime_object k r) = runtime_error_what r"
| "what (Logic_object k l) = logic_error_what l"

fun thrown_where :: "'w rich_impl \<Rightarrow> int \<Rightarrow> thrown \<Rightarrow> 'w \<Rightarrow> (string \<times> 'w) option" where
  "thrown_where R skip (Runtime_object k r) w = exception_where R skip r w"
| "thrown_where R skip (Logic_object k l) w = exception_where R skip l w"

text \<open>
  The categories. \<open>category_of\<close> reads the base class an object was built through;
  \<open>declared_category\<close> is the class head of each leaf in the header
  (\<open>: public runtime_error\<close> or \<open>: public logic_error\<close>), which is also the list of
  section 4.6 of the spec.
\<close>

datatype category = External_failure | Internal_logic

fun category_of :: "thrown \<Rightarrow> category" where
  "category_of (Runtime_object k r) = External_failure"
| "category_of (Logic_object k l) = Internal_logic"

fun declared_category :: "kind \<Rightarrow> category" where
  "declared_category Runtime_error = External_failure"
| "declared_category Range_error = External_failure"
| "declared_category Overflow_error = External_failure"
| "declared_category Underflow_error = External_failure"
| "declared_category Logic_error = Internal_logic"
| "declared_category Domain_error = Internal_logic"
| "declared_category Invalid_argument = Internal_logic"
| "declared_category Length_error = Internal_logic"
| "declared_category Out_of_range = Internal_logic"

text \<open>
  No class of the family declares a copy constructor: the implicit one copies the
  string and copy-constructs the member \<open>tracer\<close>.
\<close>

fun thrown_copy :: "'w rich_impl \<Rightarrow> thrown \<Rightarrow> 'w \<Rightarrow> (thrown \<times> 'w) option" where
  "thrown_copy R (Runtime_object k r) w =
     map_option (\<lambda>(t, w'). (Runtime_object k (r\<lparr>tracer := t\<rparr>), w')) (tracer_copy R (tracer r) w)"
| "thrown_copy R (Logic_object k l) w =
     map_option (\<lambda>(t, w'). (Logic_object k (l\<lparr>tracer := t\<rparr>), w')) (tracer_copy R (tracer l) w)"

text \<open>
  Modelled from the spec: the body of \<open>exception::~exception()\<close>, which is declared on
  line 132 and defined outside the header. Section 4.5: "No destroy/cleanup beyond
  ordinary resource release of the FrameBuffer". The destructors of \<open>runtime_error\<close> and
  \<open>logic_error\<close> have empty bodies (lines 163 and 183); destroying an object destroys its
  member \<open>tracer\<close>.
\<close>

definition thrown_dtor :: "'w rich_impl \<Rightarrow> thrown \<Rightarrow> 'w \<Rightarrow> 'w option" where
  "thrown_dtor R x w = tracer_dtor R (tracer_of x) w"

subsection \<open>Access to the members of the rich tracer classes\<close>

text \<open>
  What code outside the class may name. In \<open>bfd_tracer\<close> the assignment operator is
  declared in the private section (line 72, under the comment "Disabled assignment
  operator"). In \<open>dwarf_tracer\<close> it is declared on line 110, in the public section that
  starts on line 84; \<open>private:\<close> follows on line 112.
\<close>

datatype access = Public | Private

datatype member =
    Constructor | Destructor | Trace | Copy_constructor | Copy_assignment | Data_members

fun bfd_tracer_access :: "member \<Rightarrow> access" where
  "bfd_tracer_access Constructor = Public"
| "bfd_tracer_access Destructor = Public"
| "bfd_tracer_access Trace = Public"
| "bfd_tracer_access Copy_constructor = Public"
| "bfd_tracer_access Data_members = Private"
| "bfd_tracer_access Copy_assignment = Private"

fun dwarf_tracer_access :: "member \<Rightarrow> access" where
  "dwarf_tracer_access Constructor = Public"
| "dwarf_tracer_access Destructor = Public"
| "dwarf_tracer_access Trace = Public"
| "dwarf_tracer_access Copy_constructor = Public"
| "dwarf_tracer_access Copy_assignment = Public"
| "dwarf_tracer_access Data_members = Private"

subsection \<open>A build without a rich tracer\<close>

text \<open>
  With neither \<open>USE_BFD\<close> nor \<open>USE_DWARF\<close> defined the rich classes are not compiled;
  nothing of them is ever called, and the process state they would use is empty.
\<close>

definition dummy_build :: build where
  "dummy_build = \<lparr>USE_BFD = False, USE_DWARF = False\<rparr>"

definition no_rich :: "unit rich_impl" where
  "no_rich = \<lparr>ctor = (\<lambda>n w. None), copy_ctor = (\<lambda>t w. None),
              trace = (\<lambda>t skip w. None), dtor = (\<lambda>t w. None)\<rparr>"

subsection \<open>The rich tracers as the spec describes them\<close>

text \<open>
  The constructor, copy constructor, \<open>trace\<close> and destructor of \<open>bfd_tracer\<close> and
  \<open>dwarf_tracer\<close> are declared in the header and defined outside it. This subsection
  writes them from the spec; every definition in it is of that kind.
\<close>

text \<open>
  Modelled from the spec: the process state the rich tracers use. Section 4.2: "the
  operating environment's native stack-walking facility"; section 3: the FrameBuffer
  is "created at exception-construction time; destroyed when the owning exception is
  destroyed". \<open>call_stack\<close> is what the stack walk would report now (innermost frame
  first, \<open>None\<close> when the facility is unavailable or fails); \<open>heap\<close> holds the frame
  arrays (a pointer is an index, \<open>None\<close> a released array).
\<close>

type_synonym addr = nat

record world =
  call_stack :: "addr list option"
  heap :: "addr list option list"

text \<open>
  Modelled from the spec: section 4.2, \<open>capture(maxFrames)\<close>: "if 0 or negative, capture an
  empty buffer (no error)", "collect up to maxFrames return addresses", "if the native
  stack-walk facility is unavailable or fails, produce an empty buffer".
\<close>

definition capture :: "int \<Rightarrow> addr list option \<Rightarrow> addr list" where
  "capture maxFrames walk =
     (if maxFrames \<le> 0 then []
      else case walk of None \<Rightarrow> [] | Some stack \<Rightarrow> take (nat maxFrames) stack)"

text \<open>
  Modelled from the spec: the constructors \<open>bfd_tracer(int)\<close> and \<open>dwarf_tracer(int)\<close>.
  Section 4.5: construction "invokes the active backend's Frame Capturer immediately";
  the frames go to a new array, \<open>frames\<close> is their number.
\<close>

definition spec_ctor :: "int \<Rightarrow> world \<Rightarrow> (rich_tracer \<times> world) option" where
  "spec_ctor n w =
     (let buf = capture n (call_stack w)
      in Some (\<lparr>maxframes = n, frames = int (length buf), tbuf = length (heap w)\<rparr>,
               w\<lparr>heap := heap w @ [Some buf]\<rparr>))"

text \<open>
  Modelled from the spec: the FrameBuffer of a tracer, an "ordered sequence of
  StackFrame" with "actual length \<le> capacity" (section 3): the first \<open>frames\<close> entries
  of the array at \<open>tbuf\<close>; \<open>None\<close> when that pointer is not live.
\<close>

definition frame_buffer :: "world \<Rightarrow> rich_tracer \<Rightarrow> addr list option" where
  "frame_buffer w t =
     (if tbuf t < length (heap w)
      then map_option (take (nat (frames t))) (heap w ! tbuf t)
      else None)"

text \<open>
  Modelled from the spec: the copy constructors of \<open>bfd_tracer\<close> and \<open>dwarf_tracer\<close>.
  Section 4.5: "a copy duplicates the captured FrameBuffer (deep copy of the address
  list)": a new array with the same frames.
\<close>

definition spec_copy_ctor :: "rich_tracer \<Rightarrow> world \<Rightarrow> (rich_tracer \<times> world) option" where
  "spec_copy_ctor other w =
     (case frame_buffer w other of
        None \<Rightarrow> None
      | Some buf \<Rightarrow>
          Some (\<lparr>maxframes = maxframes other, frames = frames other, tbuf = length (heap w)\<rparr>,
                w\<lparr>heap := heap w @ [Some buf]\<rparr>))"

text \<open>
  Modelled from the spec: section 4.3, \<open>render(FrameBuffer, skip)\<close>: "frames with index <
  skip are omitted from output".
\<close>

definition retained :: "addr list \<Rightarrow> int \<Rightarrow> addr list" where
  "retained buf skip = map (nth buf) (filter (\<lambda>i. \<not> int i < skip) [0..<length buf])"

text \<open>
  Modelled from the spec: section 3, TraceText is "a single multi-line string, one line
  per frame, innermost first".
\<close>

definition text_of_lines :: "string list \<Rightarrow> string" where
  "text_of_lines ls = concat (map (\<lambda>l. l @ [CHR 0x0A]) ls)"

text \<open>
  Modelled from the spec: \<open>trace(int skip)\<close> of \<open>bfd_tracer\<close> and \<open>dwarf_tracer\<close>.
  Section 4.3: "one output line per retained frame". \<open>line_of\<close> is the line the Symbol
  Resolver writes for an address; the debug information it reads is "read-only after
  first load".
\<close>

definition spec_trace ::
    "(addr \<Rightarrow> string) \<Rightarrow> rich_tracer \<Rightarrow> int \<Rightarrow> world \<Rightarrow> (string \<times> world) option" where
  "spec_trace line_of this skip w =
     (case frame_buffer w this of
        None \<Rightarrow> None
      | Some buf \<Rightarrow> Some (text_of_lines (map line_of (retained buf skip)), w))"

text \<open>
  Modelled from the spec: the destructors of \<open>bfd_tracer\<close> and \<open>dwarf_tracer\<close>.
  Section 3: the FrameBuffer is "destroyed when the owning exception is destroyed"; the
  header's comment on the destructor is "Releases all internal resources".
\<close>

definition spec_dtor :: "rich_tracer \<Rightarrow> world \<Rightarrow> world option" where
  "spec_dtor this w =
     (case frame_buffer w this of
        None \<Rightarrow> None
      | Some buf \<Rightarrow> Some (w\<lparr>heap := (heap w)[tbuf this := None]\<rparr>))"

text \<open>
  Modelled from the spec: the four member functions above, as one implementation of the
  rich tracer classes.
\<close>

definition spec_rich :: "(addr \<Rightarrow> string) \<Rightarrow> world rich_impl" where
  "spec_rich line_of =
     \<lparr>ctor = spec_ctor, copy_ctor = spec_copy_ctor, trace = spec_trace line_of,
      dtor = spec_dtor\<rparr>"

text \<open>
  Modelled from the spec: the FrameBuffer an exception's tracer member owns. A rich
  tracer owns the frames it reads through \<open>tbuf\<close>; a \<open>dummy_tracer\<close> has no data member
  and owns none.
\<close>

fun owned_buffer :: "world \<Rightarrow> tracer \<Rightarrow> addr list option" where
  "owned_buffer w (Bfd t) = frame_buffer w t"
| "owned_buffer w (Dwarf t) = frame_buffer w t"
| "owned_buffer w (No_op d) = None"

section \<open>Properties\<close>

subsection \<open>Construction\<close>

lemmas leaf_ctor_defs =
  runtime_error_ctor_def logic_error_ctor_def invalid_argument_ctor_def
  domain_error_ctor_def length_error_ctor_def out_of_range_ctor_def
  range_error_ctor_def overflow_error_ctor_def underflow_error_ctor_def

lemma c_str_no_NUL: "NUL \<notin> set s \<Longrightarrow> c_str s = s"
  by (auto simp: c_str_def)

lemma construct_None: "construct E k arg w = None \<longleftrightarrow> E w = None"
  by (cases k) (simp_all add: leaf_ctor_defs)

lemma construct_base:
  "construct E k arg w = Some (x, w') \<Longrightarrow> E w = Some (\<lparr>tracer = tracer_of x\<rparr>, w')"
  by (cases k) (auto simp: leaf_ctor_defs)

lemma construct_what: "construct E k arg w = Some (x, w') \<Longrightarrow> what x = c_str arg"
  by (cases k) (auto simp: leaf_ctor_defs runtime_error_what_def logic_error_what_def)

lemma construct_kind:
  "construct E k arg w = Some (x, w') \<Longrightarrow>
     kind_of x = k \<and> category_of x = declared_category k"
  by (cases k) auto

lemma construct_Some:
  "E w = Some (e, w') \<Longrightarrow> \<exists>x. construct E k arg w = Some (x, w') \<and> tracer_of x = tracer e"
  by (cases k) (auto simp: leaf_ctor_defs)

lemma exception_ctor_Some:
  "exception_ctor R b n w = Some (e, w') \<longleftrightarrow> tracer_ctor R b n w = Some (tracer e, w')"
  by (cases e) (auto simp: exception_ctor_def)

lemma tracer_ctor_dummy:
  "active_backend b = Dummy_backend \<Longrightarrow> tracer_ctor R b n w = Some (No_op Dummy_object, w)"
  by (simp add: tracer_ctor_def dummy_tracer_ctor_def)

subsection \<open>Querying and copying\<close>

lemma thrown_where_tracer:
  "thrown_where R skip x w = map_option (apfst c_str) (tracer_trace R (tracer_of x) skip w)"
  by (cases x) (simp_all add: exception_where_def)

lemma c_str_sentinel: "c_str ''Tracing disabled'' = ''Tracing disabled''"
  by (simp add: c_str_def NUL_def)

lemma where_dummy:
  "tracer_of x = No_op d \<Longrightarrow> thrown_where R skip x w = Some (''Tracing disabled'', w)"
  by (simp add: thrown_where_tracer dummy_tracer_trace_def c_str_sentinel)

lemma thrown_copy_what:
  "thrown_copy R x w = Some (y, w') \<Longrightarrow>
     what y = what x \<and> kind_of y = kind_of x \<and>
     tracer_copy R (tracer_of x) w = Some (tracer_of y, w')"
  by (cases x) (auto simp: runtime_error_what_def logic_error_what_def)

subsection \<open>The frame arrays of the rich tracers, as the spec describes them\<close>

lemma spec_rich_sel [simp]:
  "ctor (spec_rich L) = spec_ctor"
  "copy_ctor (spec_rich L) = spec_copy_ctor"
  "trace (spec_rich L) = spec_trace L"
  "dtor (spec_rich L) = spec_dtor"
  by (simp_all add: spec_rich_def)

lemma retained_drop: "retained buf skip = drop (nat skip) buf"
proof -
  have "filter (\<lambda>i. \<not> int i < skip) [0..<length buf] = [nat skip..<length buf]"
    by (induction buf rule: rev_induct) (auto simp: not_less nat_le_iff le_Suc_eq)
  then have "retained buf skip = map (nth buf) [nat skip..<length buf]"
    by (simp add: retained_def)
  also have "\<dots> = drop (nat skip) (map (nth buf) [0..<length buf])"
    by (simp add: drop_map)
  finally show ?thesis by (simp add: map_nth)
qed

lemma frame_buffer_alloc_old:
  "frame_buffer w t = Some buf \<Longrightarrow> frame_buffer (w\<lparr>heap := heap w @ [a]\<rparr>) t = Some buf"
  by (auto simp: frame_buffer_def nth_append split: if_splits)

lemma frame_buffer_alloc_new:
  "frame_buffer w t = Some buf \<Longrightarrow>
   frame_buffer (w\<lparr>heap := heap w @ [Some buf]\<rparr>)
     \<lparr>maxframes = m, frames = frames t, tbuf = length (heap w)\<rparr> = Some buf"
  by (auto simp: frame_buffer_def split: if_splits)

lemma frame_buffer_release_other:
  "tbuf t \<noteq> p \<Longrightarrow> frame_buffer (w\<lparr>heap := (heap w)[p := None]\<rparr>) t = frame_buffer w t"
  by (simp add: frame_buffer_def)

lemma frame_buffer_live: "frame_buffer w t = Some buf \<Longrightarrow> tbuf t < length (heap w)"
  by (simp add: frame_buffer_def split: if_splits)

lemma spec_copy_rich:
  assumes "frame_buffer w t = Some buf"
  shows "\<exists>t' w'. spec_copy_ctor t w = Some (t', w') \<and>
           frame_buffer w' t' = Some buf \<and> frame_buffer w' t = Some buf \<and>
           (\<exists>w''. spec_dtor t w' = Some w'' \<and> frame_buffer w'' t' = Some buf)"
proof -
  let ?t' = "\<lparr>maxframes = maxframes t, frames = frames t, tbuf = length (heap w)\<rparr>"
  let ?w' = "w\<lparr>heap := heap w @ [Some buf]\<rparr>"
  have c: "spec_copy_ctor t w = Some (?t', ?w')"
    using assms by (simp add: spec_copy_ctor_def)
  have n: "frame_buffer ?w' ?t' = Some buf"
    using assms by (rule frame_buffer_alloc_new)
  have o: "frame_buffer ?w' t = Some buf"
    using assms by (rule frame_buffer_alloc_old)
  have lt: "tbuf t < length (heap w)"
    using assms by (rule frame_buffer_live)
  let ?w'' = "?w'\<lparr>heap := (heap ?w')[tbuf t := None]\<rparr>"
  have d: "spec_dtor t ?w' = Some ?w''"
    using o by (simp add: spec_dtor_def)
  have "tbuf ?t' \<noteq> tbuf t" using lt by simp
  then have "frame_buffer ?w'' ?t' = frame_buffer ?w' ?t'"
    by (rule frame_buffer_release_other)
  with n have r: "frame_buffer ?w'' ?t' = Some buf" by simp
  from c n o d r show ?thesis by blast
qed

lemma spec_trace_Some:
  "spec_trace L t skip w = Some (out, w1) \<longleftrightarrow>
     (\<exists>buf. frame_buffer w t = Some buf \<and>
            out = text_of_lines (map L (retained buf skip)) \<and> w1 = w)"
  by (auto simp: spec_trace_def split: option.splits)

lemma rich_copy_trace:
  assumes "spec_trace L t skip w = Some (out, w1)"
  shows "\<exists>t' w'. spec_copy_ctor t w = Some (t', w') \<and>
           spec_trace L t' skip w' = Some (out, w') \<and>
           spec_trace L t skip w' = Some (out, w') \<and>
           (\<exists>w''. spec_dtor t w' = Some w'' \<and> spec_trace L t' skip w'' = Some (out, w''))"
proof -
  from assms obtain buf where b: "frame_buffer w t = Some buf"
    and o: "out = text_of_lines (map L (retained buf skip))"
    by (auto simp: spec_trace_Some)
  from spec_copy_rich [OF b] obtain t' w' w'' where
    "spec_copy_ctor t w = Some (t', w')" "frame_buffer w' t' = Some buf"
    "frame_buffer w' t = Some buf" "spec_dtor t w' = Some w''" "frame_buffer w'' t' = Some buf"
    by blast
  with o show ?thesis by (simp add: spec_trace_Some)
qed

lemma tracer_copy_trace:
  assumes "tracer_trace (spec_rich L) t skip w = Some (out, w1)"
  shows "\<exists>t' w'. tracer_copy (spec_rich L) t w = Some (t', w') \<and>
           tracer_trace (spec_rich L) t' skip w' = Some (out, w') \<and>
           tracer_trace (spec_rich L) t skip w' = Some (out, w') \<and>
           (\<exists>w''. tracer_dtor (spec_rich L) t w' = Some w'' \<and>
                  tracer_trace (spec_rich L) t' skip w'' = Some (out, w''))"
proof (cases t)
  case (Bfd r)
  with assms have "spec_trace L r skip w = Some (out, w1)" by simp
  from rich_copy_trace [OF this] obtain r' w' w'' where
    "spec_copy_ctor r w = Some (r', w')" "spec_trace L r' skip w' = Some (out, w')"
    "spec_trace L r skip w' = Some (out, w')" "spec_dtor r w' = Some w''"
    "spec_trace L r' skip w'' = Some (out, w'')"
    by blast
  with Bfd show ?thesis by simp
next
  case (Dwarf r)
  with assms have "spec_trace L r skip w = Some (out, w1)" by simp
  from rich_copy_trace [OF this] obtain r' w' w'' where
    "spec_copy_ctor r w = Some (r', w')" "spec_trace L r' skip w' = Some (out, w')"
    "spec_trace L r skip w' = Some (out, w')" "spec_dtor r w' = Some w''"
    "spec_trace L r' skip w'' = Some (out, w'')"
    by blast
  with Dwarf show ?thesis by simp
next
  case (No_op d)
  with assms show ?thesis by simp
qed

lemma thrown_copy_exists:
  "tracer_copy R (tracer_of x) w = Some (t', w') \<Longrightarrow>
     \<exists>y. thrown_copy R x w = Some (y, w') \<and> tracer_of y = t' \<and> what y = what x"
  by (cases x) (auto simp: runtime_error_what_def logic_error_what_def)

lemma spec_ctor_captures:
  "\<exists>t. spec_ctor n w = Some (t, w\<lparr>heap := heap w @ [Some (capture n (call_stack w))]\<rparr>) \<and>
       frame_buffer (w\<lparr>heap := heap w @ [Some (capture n (call_stack w))]\<rparr>) t
         = Some (capture n (call_stack w))"
  by (simp add: spec_ctor_def Let_def frame_buffer_def)

lemma owned_buffer_stack: "owned_buffer (v\<lparr>call_stack := s\<rparr>) t = owned_buffer v t"
  by (cases t) (simp_all add: frame_buffer_def)

lemma tracer_ctor_rich:
  assumes "active_backend b \<noteq> Dummy_backend"
  shows "\<exists>t. tracer_ctor (spec_rich L) b n w
             = Some (t, w\<lparr>heap := heap w @ [Some (capture n (call_stack w))]\<rparr>) \<and>
           owned_buffer (w\<lparr>heap := heap w @ [Some (capture n (call_stack w))]\<rparr>) t
             = Some (capture n (call_stack w))"
proof -
  obtain t where t: "spec_ctor n w = Some (t, w\<lparr>heap := heap w @ [Some (capture n (call_stack w))]\<rparr>)"
    and f: "frame_buffer (w\<lparr>heap := heap w @ [Some (capture n (call_stack w))]\<rparr>) t
         = Some (capture n (call_stack w))"
    using spec_ctor_captures [of n w] by blast
  show ?thesis
  proof (cases "active_backend b")
    case Bfd_backend
    with t f show ?thesis by (simp add: tracer_ctor_def)
  next
    case Dwarf_backend
    with t f show ?thesis by (simp add: tracer_ctor_def)
  next
    case Dummy_backend
    with assms show ?thesis by simp
  qed
qed

lemma tracer_trace_owned:
  "owned_buffer v t = Some buf \<Longrightarrow>
     tracer_trace (spec_rich L) t skip v = Some (text_of_lines (map L (retained buf skip)), v)"
  by (cases t) (simp_all add: spec_trace_def)

lemma tracer_copy_owned:
  assumes "owned_buffer v t = Some buf"
  shows "\<exists>t'. tracer_copy (spec_rich L) t v = Some (t', v\<lparr>heap := heap v @ [Some buf]\<rparr>) \<and>
           owned_buffer (v\<lparr>heap := heap v @ [Some buf]\<rparr>) t = Some buf \<and>
           owned_buffer (v\<lparr>heap := heap v @ [Some buf]\<rparr>) t' = Some buf"
proof (cases t)
  case (Bfd r)
  with assms have f: "frame_buffer v r = Some buf" by simp
  have "frame_buffer (v\<lparr>heap := heap v @ [Some buf]\<rparr>) r = Some buf"
    using f by (rule frame_buffer_alloc_old)
  moreover have "frame_buffer (v\<lparr>heap := heap v @ [Some buf]\<rparr>)
     \<lparr>maxframes = maxframes r, frames = frames r, tbuf = length (heap v)\<rparr> = Some buf"
    using f by (rule frame_buffer_alloc_new)
  ultimately show ?thesis using Bfd f by (simp add: spec_copy_ctor_def)
next
  case (Dwarf r)
  with assms have f: "frame_buffer v r = Some buf" by simp
  have "frame_buffer (v\<lparr>heap := heap v @ [Some buf]\<rparr>) r = Some buf"
    using f by (rule frame_buffer_alloc_old)
  moreover have "frame_buffer (v\<lparr>heap := heap v @ [Some buf]\<rparr>)
     \<lparr>maxframes = maxframes r, frames = frames r, tbuf = length (heap v)\<rparr> = Some buf"
    using f by (rule frame_buffer_alloc_new)
  ultimately show ?thesis using Dwarf f by (simp add: spec_copy_ctor_def)
next
  case (No_op d)
  with assms show ?thesis by simp
qed

section \<open>The claims\<close>

text \<open>
  C1. The claim is that every instance of the family captures exactly one frame buffer,
  at construction. With the no-op backend that fails: a \<open>dummy_tracer\<close> has no data
  member, and an instance built in such a build owns no frame buffer, whatever the call
  stack is.
\<close>

theorem dummy_build_no_frame_buffer_counterexample:
  "map_option (\<lambda>(x, w'). owned_buffer w' (tracer_of x))
     (construct (exception_ctor (spec_rich (\<lambda>a. ''main'')) dummy_build 16) Logic_error ''boom''
        \<lparr>call_stack = Some [4198864, 4198990, 4199120], heap = []\<rparr>) = Some None"
  by (simp add: logic_error_ctor_def exception_ctor_def tracer_ctor_def active_backend_def
      dummy_build_def dummy_tracer_ctor_def)

text \<open>
  C1, as amended. With the rich tracers as the spec describes them, for every class of
  the family (\<open>logic_error\<close> and its leaves included, whose constructor does not name
  the base constructor), every max-frames value and every process state: construction
  returns an instance, and it is one run of the active backend's tracer constructor on
  the state at construction, which leaves the call stack as it is. Under a rich backend
  that run stores the frames captured from the call stack at construction in exactly
  one new array, which is the buffer the instance owns; on whatever call stack
  \<open>where()\<close> is called later, it renders that buffer and leaves the process state
  unchanged; and copying the instance on whatever later call stack adds one array
  holding the same frames for the copy and leaves the original's buffer as it was.
  Under the no-op backend construction leaves the process state unchanged and the
  instance owns no frame buffer.
\<close>

theorem construction_captures_once:
  "\<exists>x w'. construct (exception_ctor (spec_rich L) b n) k arg w = Some (x, w') \<and>
      tracer_ctor (spec_rich L) b n w = Some (tracer_of x, w') \<and>
      call_stack w' = call_stack w \<and>
      (if active_backend b = Dummy_backend
       then w' = w \<and> owned_buffer w' (tracer_of x) = None
       else heap w' = heap w @ [Some (capture n (call_stack w))] \<and>
            owned_buffer w' (tracer_of x) = Some (capture n (call_stack w)) \<and>
            (\<forall>s skip. thrown_where (spec_rich L) skip x (w'\<lparr>call_stack := s\<rparr>)
                 = Some (c_str (text_of_lines
                           (map L (retained (capture n (call_stack w)) skip))),
                         w'\<lparr>call_stack := s\<rparr>)) \<and>
            (\<forall>s. \<exists>y v. thrown_copy (spec_rich L) x (w'\<lparr>call_stack := s\<rparr>) = Some (y, v) \<and>
                 call_stack v = s \<and>
                 heap v = heap w' @ [Some (capture n (call_stack w))] \<and>
                 owned_buffer v (tracer_of x) = Some (capture n (call_stack w)) \<and>
                 owned_buffer v (tracer_of y) = Some (capture n (call_stack w))))"
proof (cases "active_backend b = Dummy_backend")
  case True
  then have t: "tracer_ctor (spec_rich L) b n w = Some (No_op Dummy_object, w)"
    by (rule tracer_ctor_dummy)
  then have "exception_ctor (spec_rich L) b n w = Some (\<lparr>tracer = No_op Dummy_object\<rparr>, w)"
    by (simp add: exception_ctor_Some)
  then have "\<exists>x. construct (exception_ctor (spec_rich L) b n) k arg w = Some (x, w) \<and>
               tracer_of x = tracer \<lparr>tracer = No_op Dummy_object\<rparr>"
    by (rule construct_Some)
  then obtain x where "construct (exception_ctor (spec_rich L) b n) k arg w = Some (x, w)"
    and "tracer_of x = No_op Dummy_object"
    by auto
  with t True show ?thesis by auto
next
  case False
  let ?buf = "capture n (call_stack w)"
  let ?w' = "w\<lparr>heap := heap w @ [Some ?buf]\<rparr>"
  from tracer_ctor_rich [OF False] obtain t where
    t: "tracer_ctor (spec_rich L) b n w = Some (t, ?w')"
    and o: "owned_buffer ?w' t = Some ?buf"
    by blast
  from t have "exception_ctor (spec_rich L) b n w = Some (\<lparr>tracer = t\<rparr>, ?w')"
    by (simp add: exception_ctor_Some)
  then have "\<exists>x. construct (exception_ctor (spec_rich L) b n) k arg w = Some (x, ?w') \<and>
               tracer_of x = tracer \<lparr>tracer = t\<rparr>"
    by (rule construct_Some)
  then obtain x where x: "construct (exception_ctor (spec_rich L) b n) k arg w = Some (x, ?w')"
    and tx: "tracer_of x = t"
    by auto
  have q: "\<forall>s skip. thrown_where (spec_rich L) skip x (?w'\<lparr>call_stack := s\<rparr>)
                 = Some (c_str (text_of_lines (map L (retained ?buf skip))),
                         ?w'\<lparr>call_stack := s\<rparr>)"
  proof (intro allI)
    fix s skip
    have "owned_buffer (?w'\<lparr>call_stack := s\<rparr>) t = Some ?buf"
      using o by (simp only: owned_buffer_stack)
    then have "tracer_trace (spec_rich L) t skip (?w'\<lparr>call_stack := s\<rparr>)
        = Some (text_of_lines (map L (retained ?buf skip)), ?w'\<lparr>call_stack := s\<rparr>)"
      by (rule tracer_trace_owned)
    then show "thrown_where (spec_rich L) skip x (?w'\<lparr>call_stack := s\<rparr>)
                 = Some (c_str (text_of_lines (map L (retained ?buf skip))),
                         ?w'\<lparr>call_stack := s\<rparr>)"
      by (simp add: thrown_where_tracer tx)
  qed
  have c: "\<forall>s. \<exists>y v. thrown_copy (spec_rich L) x (?w'\<lparr>call_stack := s\<rparr>) = Some (y, v) \<and>
                 call_stack v = s \<and>
                 heap v = heap ?w' @ [Some ?buf] \<and>
                 owned_buffer v (tracer_of x) = Some ?buf \<and>
                 owned_buffer v (tracer_of y) = Some ?buf"
  proof
    fix s
    let ?v = "?w'\<lparr>call_stack := s\<rparr>"
    have "owned_buffer ?v t = Some ?buf"
      using o by (simp only: owned_buffer_stack)
    from tracer_copy_owned [OF this] obtain t' where
      c1: "tracer_copy (spec_rich L) t ?v = Some (t', ?v\<lparr>heap := heap ?v @ [Some ?buf]\<rparr>)"
      and c2: "owned_buffer (?v\<lparr>heap := heap ?v @ [Some ?buf]\<rparr>) t = Some ?buf"
      and c3: "owned_buffer (?v\<lparr>heap := heap ?v @ [Some ?buf]\<rparr>) t' = Some ?buf"
      by blast
    from c1 tx have "tracer_copy (spec_rich L) (tracer_of x) ?v
        = Some (t', ?v\<lparr>heap := heap ?v @ [Some ?buf]\<rparr>)"
      by simp
    from thrown_copy_exists [OF this] obtain y where
      "thrown_copy (spec_rich L) x ?v = Some (y, ?v\<lparr>heap := heap ?v @ [Some ?buf]\<rparr>)"
      and "tracer_of y = t'"
      by blast
    with c2 c3 tx
    show "\<exists>y v. thrown_copy (spec_rich L) x ?v = Some (y, v) \<and>
                 call_stack v = s \<and>
                 heap v = heap ?w' @ [Some ?buf] \<and>
                 owned_buffer v (tracer_of x) = Some ?buf \<and>
                 owned_buffer v (tracer_of y) = Some ?buf"
      by simp
  qed
  from x t tx o q c False show ?thesis by simp
qed


text \<open>
  A \<open>logic_error\<close> built in a \<open>USE_BFD\<close> build with max-frames 2 on a stack of three
  frames: two frames are captured; \<open>where()\<close> with skip 1, called later on a stack of
  four other frames, renders the second captured frame; a copy made there owns the same
  two frames in a second array.
\<close>

theorem construction_captures_once_witness:
  "construct
     (exception_ctor (spec_rich (\<lambda>a. if a = 4198990 then ''handler'' else ''main''))
        \<lparr>USE_BFD = True, USE_DWARF = False\<rparr> 2)
     Logic_error ''boom'' \<lparr>call_stack = Some [4198864, 4198990, 4199120], heap = []\<rparr>
    = Some (Logic_object Logic_error
             \<lparr>tracer = Bfd \<lparr>maxframes = 2, frames = 2, tbuf = 0\<rparr>, M_msg = ''boom''\<rparr>,
            \<lparr>call_stack = Some [4198864, 4198990, 4199120],
             heap = [Some [4198864, 4198990]]\<rparr>) \<and>
   owned_buffer
     \<lparr>call_stack = Some [4198864, 4198990, 4199120], heap = [Some [4198864, 4198990]]\<rparr>
     (Bfd \<lparr>maxframes = 2, frames = 2, tbuf = 0\<rparr>) = Some [4198864, 4198990] \<and>
   thrown_where (spec_rich (\<lambda>a. if a = 4198990 then ''handler'' else ''main'')) 1
     (Logic_object Logic_error
        \<lparr>tracer = Bfd \<lparr>maxframes = 2, frames = 2, tbuf = 0\<rparr>, M_msg = ''boom''\<rparr>)
     \<lparr>call_stack = Some [7, 8, 9, 10], heap = [Some [4198864, 4198990]]\<rparr>
    = Some (''handler'' @ [CHR 0x0A],
            \<lparr>call_stack = Some [7, 8, 9, 10], heap = [Some [4198864, 4198990]]\<rparr>) \<and>
   (\<exists>y v. thrown_copy (spec_rich (\<lambda>a. if a = 4198990 then ''handler'' else ''main''))
        (Logic_object Logic_error
           \<lparr>tracer = Bfd \<lparr>maxframes = 2, frames = 2, tbuf = 0\<rparr>, M_msg = ''boom''\<rparr>)
        \<lparr>call_stack = Some [7, 8, 9, 10], heap = [Some [4198864, 4198990]]\<rparr> = Some (y, v) \<and>
      heap v = [Some [4198864, 4198990], Some [4198864, 4198990]] \<and>
      owned_buffer v (tracer_of y) = Some [4198864, 4198990])"
proof -
  let ?L = "\<lambda>a::nat. if a = 4198990 then ''handler'' else ''main''"
  let ?b = "\<lparr>USE_BFD = True, USE_DWARF = False\<rparr>"
  let ?w = "\<lparr>call_stack = Some [4198864, 4198990, 4199120], heap = []\<rparr>"
  have c: "construct (exception_ctor (spec_rich ?L) ?b 2) Logic_error ''boom'' ?w
      = Some ((Logic_object Logic_error
             \<lparr>tracer = Bfd \<lparr>maxframes = 2, frames = 2, tbuf = 0\<rparr>, M_msg = ''boom''\<rparr>), \<lparr>call_stack = Some [4198864, 4198990, 4199120], heap = [Some [4198864, 4198990]]\<rparr>)"
    by (simp add: logic_error_ctor_def exception_ctor_def tracer_ctor_def active_backend_def
        spec_ctor_def capture_def Let_def)
  have cap: "capture 2 (call_stack ?w) = [4198864, 4198990]"
    by (simp add: capture_def)
  have nd: "active_backend ?b \<noteq> Dummy_backend"
    by (simp add: active_backend_def)
  from construction_captures_once
    [where L = ?L and b = ?b and n = 2 and k = Logic_error and arg = "''boom''" and w = ?w]
  obtain x w' where
    a: "construct (exception_ctor (spec_rich ?L) ?b 2) Logic_error ''boom'' ?w = Some (x, w')"
    and r: "if active_backend ?b = Dummy_backend
       then w' = ?w \<and> owned_buffer w' (tracer_of x) = None
       else heap w' = heap ?w @ [Some (capture 2 (call_stack ?w))] \<and>
            owned_buffer w' (tracer_of x) = Some (capture 2 (call_stack ?w)) \<and>
            (\<forall>s skip. thrown_where (spec_rich ?L) skip x (w'\<lparr>call_stack := s\<rparr>)
                 = Some (c_str (text_of_lines
                           (map ?L (retained (capture 2 (call_stack ?w)) skip))),
                         w'\<lparr>call_stack := s\<rparr>)) \<and>
            (\<forall>s. \<exists>y v. thrown_copy (spec_rich ?L) x (w'\<lparr>call_stack := s\<rparr>) = Some (y, v) \<and>
                 call_stack v = s \<and>
                 heap v = heap w' @ [Some (capture 2 (call_stack ?w))] \<and>
                 owned_buffer v (tracer_of x) = Some (capture 2 (call_stack ?w)) \<and>
                 owned_buffer v (tracer_of y) = Some (capture 2 (call_stack ?w)))"
    by blast
  from a c have xw: "x = (Logic_object Logic_error
             \<lparr>tracer = Bfd \<lparr>maxframes = 2, frames = 2, tbuf = 0\<rparr>, M_msg = ''boom''\<rparr>)" "w' = \<lparr>call_stack = Some [4198864, 4198990, 4199120], heap = [Some [4198864, 4198990]]\<rparr>" by simp_all
  note r' = r [unfolded if_not_P [OF nd]]
  note e = r' [THEN conjunct2, THEN conjunct1]
  note q0 = r' [THEN conjunct2, THEN conjunct2, THEN conjunct1]
  note k0 = r' [THEN conjunct2, THEN conjunct2, THEN conjunct2]
  from e have o: "owned_buffer \<lparr>call_stack = Some [4198864, 4198990, 4199120], heap = [Some [4198864, 4198990]]\<rparr>
     (Bfd \<lparr>maxframes = 2, frames = 2, tbuf = 0\<rparr>) = Some [4198864, 4198990]"
    unfolding xw cap by simp
  from q0 have "thrown_where (spec_rich ?L) 1 x (w'\<lparr>call_stack := Some [7, 8, 9, 10]\<rparr>)
      = Some (c_str (text_of_lines (map ?L (retained (capture 2 (call_stack ?w)) 1))),
              w'\<lparr>call_stack := Some [7, 8, 9, 10]\<rparr>)"
    by blast
  then have q: "thrown_where (spec_rich ?L) 1 (Logic_object Logic_error
             \<lparr>tracer = Bfd \<lparr>maxframes = 2, frames = 2, tbuf = 0\<rparr>, M_msg = ''boom''\<rparr>) \<lparr>call_stack = Some [7, 8, 9, 10], heap = [Some [4198864, 4198990]]\<rparr>
      = Some (''handler'' @ [CHR 0x0A], \<lparr>call_stack = Some [7, 8, 9, 10], heap = [Some [4198864, 4198990]]\<rparr>)"
    unfolding xw cap by (simp add: retained_drop text_of_lines_def c_str_def NUL_def)
  from k0 obtain y v where
    "thrown_copy (spec_rich ?L) x (w'\<lparr>call_stack := Some [7, 8, 9, 10]\<rparr>) = Some (y, v)"
    "heap v = heap w' @ [Some (capture 2 (call_stack ?w))]"
    "owned_buffer v (tracer_of y) = Some (capture 2 (call_stack ?w))"
    by blast
  then have "thrown_copy (spec_rich ?L) (Logic_object Logic_error
             \<lparr>tracer = Bfd \<lparr>maxframes = 2, frames = 2, tbuf = 0\<rparr>, M_msg = ''boom''\<rparr>) \<lparr>call_stack = Some [7, 8, 9, 10], heap = [Some [4198864, 4198990]]\<rparr> = Some (y, v) \<and>
      heap v = [Some [4198864, 4198990], Some [4198864, 4198990]] \<and>
      owned_buffer v (tracer_of y) = Some [4198864, 4198990]"
    unfolding xw cap by simp
  then have k: "\<exists>y v. thrown_copy (spec_rich ?L) (Logic_object Logic_error
             \<lparr>tracer = Bfd \<lparr>maxframes = 2, frames = 2, tbuf = 0\<rparr>, M_msg = ''boom''\<rparr>) \<lparr>call_stack = Some [7, 8, 9, 10], heap = [Some [4198864, 4198990]]\<rparr> = Some (y, v) \<and>
      heap v = [Some [4198864, 4198990], Some [4198864, 4198990]] \<and>
      owned_buffer v (tracer_of y) = Some [4198864, 4198990]"
    by blast
  from c o q k show ?thesis by simp
qed

text \<open>
  C3. With the no-op backend active, for every max-frames value \<open>n\<close> passed at
  construction and every skip value: \<open>dummy_tracer::trace\<close> returns the text
  "Tracing disabled", which is not empty, and so does \<open>trace\<close> on the tracer member the
  build constructs; constructing any class of the family returns an instance and leaves
  the process state alone; and \<open>where()\<close> on that instance returns "Tracing disabled"
  in every process state.
\<close>

theorem dummy_backend_sentinel:
  assumes "active_backend b = Dummy_backend"
  shows "dummy_tracer_trace (dummy_tracer_ctor n) skip = ''Tracing disabled'' \<and>
         dummy_tracer_trace (dummy_tracer_ctor n) skip \<noteq> [] \<and>
         (\<exists>t. tracer_ctor R b n w = Some (t, w) \<and>
              (\<forall>v. tracer_trace R t skip v = Some (''Tracing disabled'', v))) \<and>
         (\<exists>x. construct (exception_ctor R b n) k arg w = Some (x, w) \<and>
              (\<forall>v. thrown_where R skip x v = Some (''Tracing disabled'', v)))"
proof -
  have t: "tracer_ctor R b n w = Some (No_op Dummy_object, w)"
    using assms by (rule tracer_ctor_dummy)
  then have "exception_ctor R b n w = Some (\<lparr>tracer = No_op Dummy_object\<rparr>, w)"
    by (simp add: exception_ctor_Some)
  then have "\<exists>x. construct (exception_ctor R b n) k arg w = Some (x, w) \<and>
               tracer_of x = tracer \<lparr>tracer = No_op Dummy_object\<rparr>"
    by (rule construct_Some)
  then obtain x where x: "construct (exception_ctor R b n) k arg w = Some (x, w)"
    and d: "tracer_of x = No_op Dummy_object"
    by auto
  have q: "\<forall>v. thrown_where R skip x v = Some (''Tracing disabled'', v)"
    using d by (simp add: where_dummy)
  have "\<forall>v. tracer_trace R (No_op Dummy_object) skip v = Some (''Tracing disabled'', v)"
    by (simp add: dummy_tracer_trace_def)
  with t x q show ?thesis by (auto simp: dummy_tracer_trace_def)
qed

theorem dummy_backend_sentinel_witness:
  "active_backend dummy_build = Dummy_backend \<and>
   dummy_tracer_trace (dummy_tracer_ctor 16) 0 = ''Tracing disabled'' \<and>
   (\<exists>x. construct (exception_ctor no_rich dummy_build 16) Invalid_argument ''bad size'' ()
          = Some (x, ()) \<and>
        (\<forall>v. thrown_where no_rich 0 x v = Some (''Tracing disabled'', v)))"
proof -
  have h: "active_backend dummy_build = Dummy_backend"
    by (simp add: active_backend_def dummy_build_def)
  show ?thesis
    using h dummy_backend_sentinel [OF h, where n = 16 and skip = 0 and R = no_rich
        and k = Invalid_argument and arg = "''bad size''" and w = "()"]
    by simp
qed

text \<open>
  C4. The claim is that \<open>what()\<close> returns exactly the message for every message
  string. A \<open>std::string\<close> may hold a NUL; \<open>what()\<close> returns \<open>msg.c_str()\<close> as a
  \<open>const char*\<close>, and the C string read through it ends at the first NUL: for the
  three characters a, NUL, b it is "a".
\<close>

theorem what_embedded_NUL_counterexample:
  "map_option (what \<circ> fst)
     (construct (exception_ctor no_rich dummy_build 16) Runtime_error
        [CHR ''a'', CHR 0x00, CHR ''b''] ())
     = Some ''a'' \<and>
   ''a'' \<noteq> [CHR ''a'', CHR 0x00, CHR ''b'']"
  by (simp add: runtime_error_ctor_def exception_ctor_def tracer_ctor_def active_backend_def
      dummy_build_def dummy_tracer_ctor_def runtime_error_what_def c_str_def NUL_def)

text \<open>
  C4, as amended. For every class of the family, every message string \<open>arg\<close> and
  whatever \<open>exception()\<close> does: construction fails to return only if \<open>exception()\<close>
  does; otherwise \<open>what()\<close> on the instance is the part of \<open>arg\<close> before its first NUL,
  which is exactly \<open>arg\<close> when \<open>arg\<close> holds no NUL, the instance has the class it was
  constructed as, and the base class it was built through is the category its class is
  declared under.
\<close>

theorem leaf_what_and_category:
  "case construct E k arg w of
     None \<Rightarrow> E w = None
   | Some (x, w') \<Rightarrow>
       what x = c_str arg \<and> (NUL \<notin> set arg \<longrightarrow> what x = arg) \<and>
       kind_of x = k \<and> category_of x = declared_category k"
proof (cases "construct E k arg w")
  case None
  then have "E w = None" by (simp add: construct_None)
  with None show ?thesis by simp
next
  case (Some p)
  obtain x w' where p: "p = (x, w')" by (cases p)
  with Some have c: "construct E k arg w = Some (x, w')" by simp
  have "what x = c_str arg" using c by (rule construct_what)
  moreover have "kind_of x = k \<and> category_of x = declared_category k"
    using c by (rule construct_kind)
  ultimately show ?thesis using c by (simp add: c_str_no_NUL)
qed

theorem leaf_what_and_category_witness:
  "construct (exception_ctor no_rich dummy_build 16) Invalid_argument ''bad size'' ()
     = Some (Logic_object Invalid_argument
              \<lparr>tracer = No_op Dummy_object, M_msg = ''bad size''\<rparr>, ()) \<and>
   what (Logic_object Invalid_argument \<lparr>tracer = No_op Dummy_object, M_msg = ''bad size''\<rparr>)
     = ''bad size'' \<and>
   category_of (Logic_object Invalid_argument
                 \<lparr>tracer = No_op Dummy_object, M_msg = ''bad size''\<rparr>) = Internal_logic"
proof -
  have c: "construct (exception_ctor no_rich dummy_build 16) Invalid_argument ''bad size'' ()
     = Some (Logic_object Invalid_argument
              \<lparr>tracer = No_op Dummy_object, M_msg = ''bad size''\<rparr>, ())"
    by (simp add: invalid_argument_ctor_def logic_error_ctor_def exception_ctor_def
        tracer_ctor_def active_backend_def dummy_build_def dummy_tracer_ctor_def)
  have n: "NUL \<notin> set ''bad size''" by (simp add: NUL_def)
  show ?thesis
    using c n leaf_what_and_category [where E = "exception_ctor no_rich dummy_build 16"
        and k = Invalid_argument and arg = "''bad size''" and w = "()"]
    by auto
qed

text \<open>
  C9. Copy-constructing an instance \<open>y\<close> from an instance \<open>x\<close>. Whatever the rich
  tracers' member functions do, \<open>what()\<close> of the copy is \<open>what()\<close> of the original and
  the copy has the original's class. With the rich tracers as the spec describes them
  (the copy constructor duplicates the frame array): if \<open>where()\<close> returns a text on
  \<open>x\<close>, then copying \<open>x\<close> returns a copy, \<open>where()\<close> returns that same text on the copy
  and on the original, and it still returns it on the copy after the original has been
  destroyed.
\<close>

theorem copy_preserves_what_and_where:
  "(\<forall>y v'. thrown_copy R x v = Some (y, v') \<longrightarrow> what y = what x \<and> kind_of y = kind_of x) \<and>
   (\<forall>out w1. thrown_where (spec_rich L) skip x w = Some (out, w1) \<longrightarrow>
      (\<exists>y w'. thrown_copy (spec_rich L) x w = Some (y, w') \<and> what y = what x \<and>
         thrown_where (spec_rich L) skip y w' = Some (out, w') \<and>
         thrown_where (spec_rich L) skip x w' = Some (out, w') \<and>
         (\<exists>w''. thrown_dtor (spec_rich L) x w' = Some w'' \<and>
                thrown_where (spec_rich L) skip y w'' = Some (out, w''))))"
proof (intro conjI allI impI)
  fix y v'
  assume "thrown_copy R x v = Some (y, v')"
  then show "what y = what x" and "kind_of y = kind_of x"
    by (simp_all add: thrown_copy_what)
next
  fix out w1
  assume "thrown_where (spec_rich L) skip x w = Some (out, w1)"
  then obtain raw where raw: "tracer_trace (spec_rich L) (tracer_of x) skip w = Some (raw, w1)"
    and o: "out = c_str raw"
    by (auto simp: thrown_where_tracer)
  from tracer_copy_trace [OF raw] obtain t' w' w'' where
    c: "tracer_copy (spec_rich L) (tracer_of x) w = Some (t', w')"
    and n: "tracer_trace (spec_rich L) t' skip w' = Some (raw, w')"
    and k: "tracer_trace (spec_rich L) (tracer_of x) skip w' = Some (raw, w')"
    and d: "tracer_dtor (spec_rich L) (tracer_of x) w' = Some w''"
    and r: "tracer_trace (spec_rich L) t' skip w'' = Some (raw, w'')"
    by blast
  from thrown_copy_exists [OF c] obtain y where
    y: "thrown_copy (spec_rich L) x w = Some (y, w')" "tracer_of y = t'" "what y = what x"
    by blast
  have "thrown_where (spec_rich L) skip y w' = Some (out, w')"
    using n y(2) o by (simp add: thrown_where_tracer)
  moreover have "thrown_where (spec_rich L) skip x w' = Some (out, w')"
    using k o by (simp add: thrown_where_tracer)
  moreover have "thrown_dtor (spec_rich L) x w' = Some w''"
    using d by (simp add: thrown_dtor_def)
  moreover have "thrown_where (spec_rich L) skip y w'' = Some (out, w'')"
    using r y(2) o by (simp add: thrown_where_tracer)
  ultimately show "\<exists>y w'. thrown_copy (spec_rich L) x w = Some (y, w') \<and> what y = what x \<and>
         thrown_where (spec_rich L) skip y w' = Some (out, w') \<and>
         thrown_where (spec_rich L) skip x w' = Some (out, w') \<and>
         (\<exists>w''. thrown_dtor (spec_rich L) x w' = Some w'' \<and>
                thrown_where (spec_rich L) skip y w'' = Some (out, w''))"
    using y(1) y(3) by (intro exI conjI)
qed

text \<open>
  A \<open>logic_error\<close> holding three frames, queried with skip 1: two lines, and the same
  two lines from its copy.
\<close>

theorem copy_preserves_what_and_where_witness:
  "thrown_where (spec_rich (\<lambda>a. if a = 4198990 then ''handler'' else ''main'')) 1
     (Logic_object Logic_error
        \<lparr>tracer = Bfd \<lparr>maxframes = 16, frames = 3, tbuf = 0\<rparr>, M_msg = ''boom''\<rparr>)
     \<lparr>call_stack = None, heap = [Some [4198864, 4198990, 4199120]]\<rparr>
   = Some (''handler'' @ [CHR 0x0A] @ ''main'' @ [CHR 0x0A],
           \<lparr>call_stack = None, heap = [Some [4198864, 4198990, 4199120]]\<rparr>) \<and>
   (\<exists>y w'. thrown_copy (spec_rich (\<lambda>a. if a = 4198990 then ''handler'' else ''main''))
        (Logic_object Logic_error
          \<lparr>tracer = Bfd \<lparr>maxframes = 16, frames = 3, tbuf = 0\<rparr>, M_msg = ''boom''\<rparr>)
        \<lparr>call_stack = None, heap = [Some [4198864, 4198990, 4199120]]\<rparr> = Some (y, w') \<and>
      what y = ''boom'' \<and>
      thrown_where (spec_rich (\<lambda>a. if a = 4198990 then ''handler'' else ''main'')) 1 y w'
        = Some (''handler'' @ [CHR 0x0A] @ ''main'' @ [CHR 0x0A], w'))"
proof -
  let ?L = "\<lambda>a::nat. if a = 4198990 then ''handler'' else ''main''"
  let ?x = "Logic_object Logic_error
        \<lparr>tracer = Bfd \<lparr>maxframes = 16, frames = 3, tbuf = 0\<rparr>, M_msg = ''boom''\<rparr>"
  let ?w = "\<lparr>call_stack = None, heap = [Some [4198864, 4198990, 4199120]]\<rparr>"
  have h: "thrown_where (spec_rich ?L) 1 ?x ?w
      = Some (''handler'' @ [CHR 0x0A] @ ''main'' @ [CHR 0x0A], ?w)"
    by (simp add: exception_where_def spec_trace_def frame_buffer_def retained_drop
        text_of_lines_def c_str_def NUL_def)
  have m: "what ?x = ''boom''"
    by (simp add: logic_error_what_def c_str_def NUL_def)
  from copy_preserves_what_and_where [where L = ?L and skip = 1 and x = ?x and w = ?w
      and R = "spec_rich ?L" and v = ?w] h m
  show ?thesis by fastforce
qed

text \<open>
  C10. The claim is that copy assignment is disabled on both rich tracer classes while
  copy construction stays enabled. \<open>bfd_tracer\<close> declares its assignment operator
  private; \<open>dwarf_tracer\<close> declares it public, so code outside the class may assign one
  \<open>dwarf_tracer\<close> to another. Both copy constructors are public.
\<close>

theorem dwarf_tracer_assignment_is_public:
  "dwarf_tracer_access Copy_assignment = Public \<and>
   bfd_tracer_access Copy_assignment = Private \<and>
   dwarf_tracer_access Copy_constructor = Public \<and>
   bfd_tracer_access Copy_constructor = Public"
  by simp

end
